theory Spec2Isabelle
  imports Complex_Main
begin

section \<open>Values of the Python program\<close>

text \<open>
  Exceptions of the Python program are values: a function that can raise returns
  \<open>py_error + 'a\<close>, with \<open>Inl\<close> for the raised exception. \<open>RemoteError\<close> stands for any
  exception raised inside the exchange client (the \<open>okx\<close> package).
\<close>

datatype py_error =
    IndexError | KeyError | ValueError | AttributeError | IntegrityError | RemoteError

text \<open>
  Python floats are modelled as exact reals; rounding is not modelled, so every
  comparison below is about the expression the source writes, evaluated exactly. The
  one non-finite value the program depends on is NaN (the warm-up entries of the RSI
  array), which the indicator's output type keeps apart; every comparison with NaN is
  false, as in Python.
\<close>

datatype pyfloat = Fin real | NaN

fun fl_less :: "pyfloat \<Rightarrow> real \<Rightarrow> bool" where
  "fl_less (Fin a) b = (a < b)"
| "fl_less NaN b = False"

text \<open>Python's \<open>xs[-1]\<close>: the last element, IndexError on an empty sequence.\<close>

fun py_last :: "'a list \<Rightarrow> py_error + 'a" where
  "py_last [] = Inl IndexError"
| "py_last (x # xs) = Inr (last (x # xs))"

text \<open>
  Sequencing of computations that can raise: the first exception wins.
\<close>

fun bind_err :: "py_error + 'a \<Rightarrow> ('a \<Rightarrow> py_error + 'b) \<Rightarrow> py_error + 'b" where
  "bind_err (Inl e) f = Inl e"
| "bind_err (Inr x) f = f x"

text \<open>A list comprehension whose element expression can raise, evaluated left to right.\<close>

fun map_err :: "('a \<Rightarrow> py_error + 'b) \<Rightarrow> 'a list \<Rightarrow> py_error + 'b list" where
  "map_err f [] = Inr []"
| "map_err f (x # xs) =
     bind_err (f x) (\<lambda>y. bind_err (map_err f xs) (\<lambda>ys. Inr (y # ys)))"

text \<open>\<open>d[k]\<close> on a dict (an association list) and \<open>xs[i]\<close> with a literal index \<open>i \<ge> 0\<close>.\<close>

definition py_getitem :: "(string \<times> 'v) list \<Rightarrow> string \<Rightarrow> py_error + 'v" where
  "py_getitem d k = (case map_of d k of None \<Rightarrow> Inl KeyError | Some v \<Rightarrow> Inr v)"

definition py_index :: "'a list \<Rightarrow> nat \<Rightarrow> py_error + 'a" where
  "py_index xs i = (if i < length xs then Inr (xs ! i) else Inl IndexError)"

text \<open>
  \<open>str(n)\<close> of an int, and \<open>int(s)\<close>, \<open>float(s)\<close> of a string. The parsers accept the
  plain decimal literals the exchange sends (an optional sign, digits, for \<open>float\<close> an
  optional point) and raise ValueError on anything else; Python's further forms
  (exponents, surrounding blanks, \<open>inf\<close>, \<open>nan\<close>) are not modelled.
\<close>

fun str_nat :: "nat \<Rightarrow> string" where
  "str_nat n =
     (if n < 10 then [char_of (48 + n)]
      else str_nat (n div 10) @ [char_of (48 + n mod 10)])"

declare str_nat.simps [simp del]

definition py_str :: "int \<Rightarrow> string" where
  "py_str i = (if i < 0 then CHR ''-'' # str_nat (nat (- i)) else str_nat (nat i))"

definition is_digit :: "char \<Rightarrow> bool" where
  "is_digit c = (c \<in> set ''0123456789'')"

definition digits_val :: "string \<Rightarrow> nat" where
  "digits_val cs = foldl (\<lambda>n c. 10 * n + (of_char c - 48)) 0 cs"

definition split_sign :: "string \<Rightarrow> bool \<times> string" where
  "split_sign s =
     (case s of
        [] \<Rightarrow> (False, [])
      | c # r \<Rightarrow> if c = CHR ''-'' then (True, r) else if c = CHR ''+'' then (False, r)
                 else (False, s))"

definition py_int :: "string \<Rightarrow> py_error + int" where
  "py_int s =
     (case split_sign s of (neg, body) \<Rightarrow>
        if body \<noteq> [] \<and> list_all is_digit body
        then Inr (if neg then - int (digits_val body) else int (digits_val body))
        else Inl ValueError)"

definition py_float :: "string \<Rightarrow> py_error + real" where
  "py_float s =
     (case split_sign s of (neg, body) \<Rightarrow>
        let ip = takeWhile (\<lambda>c. c \<noteq> CHR ''.'') body;
            fp = drop 1 (dropWhile (\<lambda>c. c \<noteq> CHR ''.'') body)
        in if ip @ fp \<noteq> [] \<and> list_all is_digit (ip @ fp)
           then let v = real (digits_val ip) + real (digits_val fp) / 10 ^ length fp
                in Inr (if neg then - v else v)
           else Inl ValueError)"

section \<open>The exchange client (package okx, outside the repository)\<close>

text \<open>
  The exchange is an opaque remote service: each call either raises or returns a
  JSON document. A response is a dict; a candle is a list of strings
  \<open>[timestamp, open, high, low, close, volume, ...]\<close>; a ticker row is a dict of
  strings; an order reference is an opaque dict. The client objects are the functions
  the program calls on them, so that a model of the exchange at the moment of a call
  is a value of these records.
\<close>

type_synonym candle = "string list"
type_synonym candles_response = "(string \<times> candle list) list"
type_synonym ticker_response = "(string \<times> (string \<times> string) list list) list"
type_synonym order = "(string \<times> string) list"

record market_api =
  get_candlesticks :: "string \<Rightarrow> string \<Rightarrow> string \<Rightarrow> py_error + candles_response"
  get_ticker :: "string \<Rightarrow> py_error + ticker_response"

record trade_api =
  place_order :: "string \<Rightarrow> string \<Rightarrow> string \<Rightarrow> string \<Rightarrow> string \<Rightarrow> py_error + order"

section \<open>The indicator (package talib, outside the repository)\<close>

text \<open>
  Modelled from the spec: \<open>talib.RSI\<close> is an external library, not part of the source
  tree. Spec 4.3: one value per input element, the first \<open>period\<close> entries undefined
  (NaN), an all-NaN sequence for fewer than \<open>period + 1\<close> inputs; afterwards the
  average gain against the average loss over the trailing \<open>period\<close> price changes
  (Wilder's smoothing), rescaled to 0..100, and 0 where there is neither gain nor loss.
\<close>

fun changes :: "real list \<Rightarrow> real list" where
  "changes (x # y # xs) = (y - x) # changes (y # xs)"
| "changes xs = []"

definition gain :: "real \<Rightarrow> real" where
  "gain d = (if d < 0 then 0 else d)"

definition loss :: "real \<Rightarrow> real" where
  "loss d = (if d < 0 then - d else 0)"

definition rsi_value :: "real \<Rightarrow> real \<Rightarrow> real" where
  "rsi_value g l = (if g + l = 0 then 0 else 100 * (g / (g + l)))"

fun smooth :: "nat \<Rightarrow> real \<Rightarrow> real \<Rightarrow> real list \<Rightarrow> real list" where
  "smooth n g l [] = []"
| "smooth n g l (d # ds) =
     (let g' = (g * real (n - 1) + gain d) / real n;
          l' = (l * real (n - 1) + loss d) / real n
      in rsi_value g' l' # smooth n g' l' ds)"

definition RSI :: "real list \<Rightarrow> nat \<Rightarrow> pyfloat list" where
  "RSI prices n =
     (if length prices < n + 1 then replicate (length prices) NaN
      else
        let ds = changes prices;
            g0 = sum_list (map gain (take n ds)) / real n;
            l0 = sum_list (map loss (take n ds)) / real n
        in replicate n NaN @ map Fin (rsi_value g0 l0 # smooth n g0 l0 (drop n ds)))"

section \<open>The strategy object (src/strategy.py, class TradingStrategy)\<close>

text \<open>
  The attributes of \<open>self\<close> that the decision logic reads or writes. Sizes are Python
  ints; prices and percentages are floats.
\<close>

record strategy =
  buy1_size :: int
  buy2_size :: int
  stop_loss_percent :: real
  take_profit_percent :: real
  buy2_offset :: real
  immediate_exit_threshold :: real
  rsi_length :: nat
  rsi_overbought :: real
  rsi_oversold :: real
  position_size :: int
  position_avg_price :: real

text \<open>\<open>__init__\<close>: the hard-coded parameters and the flat position.\<close>

definition init :: strategy where
  "init = \<lparr> buy1_size = 40, buy2_size = 7, stop_loss_percent = 3,
            take_profit_percent = 5, buy2_offset = 4, immediate_exit_threshold = 2,
            rsi_length = 14, rsi_overbought = 67, rsi_oversold = 33,
            position_size = 0, position_avg_price = 0 \<rparr>"

subsection \<open>get_historical_prices\<close>

text \<open>
  The body of the \<open>try\<close> block, then the function: any exception of the body is
  caught (and logged), and the empty list is returned.
\<close>

definition get_historical_prices_try ::
  "market_api \<Rightarrow> string \<Rightarrow> int \<Rightarrow> py_error + real list" where
  "get_historical_prices_try market symbol limit =
     bind_err (get_candlesticks market symbol ''5m'' (py_str limit)) (\<lambda>candles.
     bind_err (py_getitem candles ''data'') (\<lambda>rows.
     map_err (\<lambda>candle. bind_err (py_index candle 5) py_float) rows))"

definition get_historical_prices :: "market_api \<Rightarrow> string \<Rightarrow> int \<Rightarrow> real list" where
  "get_historical_prices market symbol limit =
     (case get_historical_prices_try market symbol limit of
        Inl e \<Rightarrow> []
      | Inr closes \<Rightarrow> closes)"

subsection \<open>calculate_rsi\<close>

definition calculate_rsi :: "strategy \<Rightarrow> real list \<Rightarrow> pyfloat list" where
  "calculate_rsi s prices = RSI prices (rsi_length s)"

subsection \<open>get_current_price\<close>

text \<open>No \<open>try\<close> here: an exception of the call or of the decoding reaches the caller.\<close>

definition get_current_price :: "market_api \<Rightarrow> string \<Rightarrow> py_error + real" where
  "get_current_price market symbol =
     bind_err (get_ticker market symbol) (\<lambda>ticker.
     bind_err (py_getitem ticker ''data'') (\<lambda>rows.
     bind_err (py_index rows 0) (\<lambda>row.
     bind_err (py_getitem row ''last'') py_float)))"

subsection \<open>check_entry_conditions\<close>

definition check_entry_conditions ::
  "strategy \<Rightarrow> real list \<Rightarrow> real \<Rightarrow> py_error + string option" where
  "check_entry_conditions s prices current_price =
     bind_err (py_last (calculate_rsi s prices)) (\<lambda>current_rsi.
       if position_size s = 0 \<and> fl_less current_rsi (rsi_oversold s)
         then Inr (Some ''buy1'')
       else if position_size s = buy1_size s \<and>
               current_price > position_avg_price s * (1 + buy2_offset s / 100)
         then Inr (Some ''buy2'')
       else Inr None)"

subsection \<open>check_exit_conditions\<close>

definition check_exit_conditions :: "strategy \<Rightarrow> real list \<Rightarrow> real \<Rightarrow> string option" where
  "check_exit_conditions s prices current_price =
     (if position_size s = 0 then None
      else if current_price < position_avg_price s * (1 - immediate_exit_threshold s / 100)
        then Some ''immediate_exit''
      else
        let stop_loss_price = position_avg_price s * (1 - stop_loss_percent s / 100);
            take_profit_price = position_avg_price s * (1 + take_profit_percent s / 100)
        in if current_price \<le> stop_loss_price \<or> current_price \<ge> take_profit_price
           then Some ''tp_sl''
           else None)"

subsection \<open>enter_position and exit_position\<close>

text \<open>
  Both return the updated object and the order, or \<open>None\<close> with the object unchanged
  when anything inside the \<open>try\<close> block raised.
\<close>

definition enter_position ::
  "strategy \<Rightarrow> market_api \<Rightarrow> trade_api \<Rightarrow> string \<Rightarrow> string \<Rightarrow> int \<Rightarrow> strategy \<times> order option" where
  "enter_position s market trade symbol side entry_size =
     (case get_current_price market symbol of
        Inl e \<Rightarrow> (s, None)
      | Inr current_price \<Rightarrow>
          (case place_order trade symbol ''cross'' side ''market'' (py_str entry_size) of
             Inl e \<Rightarrow> (s, None)
           | Inr order \<Rightarrow>
               (s\<lparr> position_size := position_size s + entry_size,
                   position_avg_price := current_price \<rparr>, Some order)))"

definition exit_position ::
  "strategy \<Rightarrow> trade_api \<Rightarrow> string \<Rightarrow> strategy \<times> order option" where
  "exit_position s trade symbol =
     (let side = (if position_size s > 0 then ''sell'' else ''buy'')
      in case place_order trade symbol ''cross'' side ''market'' (py_str (position_size s)) of
           Inl e \<Rightarrow> (s, None)
         | Inr order \<Rightarrow> (s\<lparr> position_size := 0, position_avg_price := 0 \<rparr>, Some order))"

subsection \<open>Executions of the position state machine\<close>

text \<open>
  The states the object can be in: \<open>__init__\<close>, then any number of calls of
  \<open>enter_position\<close> and \<open>exit_position\<close>, each against the exchange as it is at that
  moment and whether or not the call succeeds. Entries have a strictly positive size,
  and a price the exchange reports is strictly positive.
\<close>

inductive reachable :: "strategy \<Rightarrow> bool" where
  reachable_init: "reachable init"
| reachable_enter:
    "reachable s \<Longrightarrow> 0 < entry_size \<Longrightarrow>
     (\<And>p. get_current_price market symbol = Inr p \<Longrightarrow> 0 < p) \<Longrightarrow>
     enter_position s market trade symbol side entry_size = (s', r) \<Longrightarrow> reachable s'"
| reachable_exit:
    "reachable s \<Longrightarrow> exit_position s trade symbol = (s', r) \<Longrightarrow> reachable s'"

section \<open>The store (src/data/models.py, class Database)\<close>

text \<open>
  The SQLite tables as lists of rows. \<open>strategy_signals\<close> has the columns
  \<open>(symbol, timestamp, signal)\<close>, all \<open>NOT NULL\<close>, with primary key
  \<open>(symbol, timestamp)\<close>. A column that an \<open>INSERT\<close> does not list gets its default,
  which is NULL here (\<open>None\<close>). \<open>INSERT OR REPLACE\<close> deletes the rows with the same key
  and appends the new row; for a violated \<open>NOT NULL\<close> constraint on a column without a
  default it aborts, and the \<open>sqlite3\<close> module raises IntegrityError.
\<close>

type_synonym signal_row = "string \<times> int \<times> string"

record database =
  connection :: "signal_row list option"

definition insert_or_replace_strategy_signals ::
  "signal_row list \<Rightarrow> string option \<Rightarrow> int option \<Rightarrow> string option \<Rightarrow> py_error + signal_row list" where
  "insert_or_replace_strategy_signals rows symbol timestamp signal =
     (case symbol of
        None \<Rightarrow> Inl IntegrityError
      | Some sy \<Rightarrow>
          (case timestamp of
             None \<Rightarrow> Inl IntegrityError
           | Some ts \<Rightarrow>
               (case signal of
                  None \<Rightarrow> Inl IntegrityError
                | Some sg \<Rightarrow>
                    Inr (filter (\<lambda>(sy', ts', sg'). \<not> (sy' = sy \<and> ts' = ts)) rows
                         @ [(sy, ts, sg)]))))"

text \<open>
  \<open>insert_signal(self, timestamp, signal)\<close>: the statement lists the columns
  \<open>(timestamp, signal)\<close> only. \<open>self.connection\<close> is \<open>None\<close> when the connection could
  not be opened.
\<close>

definition insert_signal :: "database \<Rightarrow> int \<Rightarrow> string \<Rightarrow> py_error + database" where
  "insert_signal db timestamp signal =
     (case connection db of
        None \<Rightarrow> Inl AttributeError
      | Some rows \<Rightarrow>
          bind_err (insert_or_replace_strategy_signals rows None (Some timestamp) (Some signal))
            (\<lambda>rows'. Inr (db\<lparr> connection := Some rows' \<rparr>)))"

text \<open>
  \<open>bulk_insert_historical_data\<close>, up to the rows it hands to the database: the candles
  sorted by \<open>int(x[0])\<close> (Python's sort is stable, and computes every key before it
  sorts), then one row \<open>(symbol, timestamp, datetime, open, high, low, close, volume)\<close>
  per candle. \<open>convert_timestamp_to_datetime\<close> formats \<open>int(timestamp) / 1000\<close> in the
  local time zone; the formatting is the parameter \<open>fmt\<close>.
\<close>

type_synonym candle_row =
  "string \<times> string \<times> string \<times> string \<times> string \<times> string \<times> string \<times> string"

definition convert_timestamp_to_datetime :: "(int \<Rightarrow> string) \<Rightarrow> string \<Rightarrow> py_error + string" where
  "convert_timestamp_to_datetime fmt timestamp =
     bind_err (py_int timestamp) (\<lambda>t. Inr (fmt t))"

definition data_to_insert ::
  "(int \<Rightarrow> string) \<Rightarrow> string \<Rightarrow> candles_response \<Rightarrow> py_error + candle_row list" where
  "data_to_insert fmt symbol historical_candles =
     bind_err (py_getitem historical_candles ''data'') (\<lambda>rows.
     bind_err (map_err (\<lambda>x. bind_err (py_index x 0) py_int) rows) (\<lambda>keys.
       let sorted_candles = map snd (sort_key fst (zip keys rows))
       in map_err (\<lambda>candle.
            bind_err (py_index candle 0) (\<lambda>timestamp.
            bind_err (convert_timestamp_to_datetime fmt timestamp) (\<lambda>datetime_str.
            bind_err (py_index candle 1) (\<lambda>c1.
            bind_err (py_index candle 2) (\<lambda>c2.
            bind_err (py_index candle 3) (\<lambda>c3.
            bind_err (py_index candle 4) (\<lambda>c4.
            bind_err (py_index candle 5) (\<lambda>c5.
              Inr (symbol, timestamp, datetime_str, c1, c2, c3, c4, c5)))))))))
          sorted_candles))"

section \<open>Concrete inputs\<close>

text \<open>
  An exchange that answers: two 5-minute candles, newest first, as the exchange sends
  them, and a ticker. An exchange whose every call raises. A trade client that
  accepts every order.
\<close>

definition two_candles :: candles_response where
  "two_candles =
     [(''code'', []),
      (''data'',
        [[''1700000300000'', ''0.52'', ''0.53'', ''0.49'', ''0.50'', ''1200''],
         [''1700000000000'', ''0.50'', ''0.52'', ''0.49'', ''0.51'', ''900'']])]"

definition answering_market :: market_api where
  "answering_market =
     \<lparr> get_candlesticks = (\<lambda>symbol bar limit. Inr two_candles),
       get_ticker = (\<lambda>symbol. Inr [(''data'', [[(''instId'', symbol), (''last'', ''0.5'')]])]) \<rparr>"

definition failing_market :: market_api where
  "failing_market =
     \<lparr> get_candlesticks = (\<lambda>symbol bar limit. Inl RemoteError),
       get_ticker = (\<lambda>symbol. Inl RemoteError) \<rparr>"

definition accepting_trade :: trade_api where
  "accepting_trade =
     \<lparr> place_order = (\<lambda>instId tdMode side ordType sz. Inr [(''ordId'', ''1''), (''sz'', sz)]) \<rparr>"

text \<open>Fifteen falling closes (RSI 0), and three closes (shorter than the warm-up).\<close>

definition falling_closes :: "real list" where
  "falling_closes = [15, 14, 13, 12, 11, 10, 9, 8, 7, 6, 5, 4, 3, 2, 1]"


text \<open>The position after the first tranche at price 100, and after both tranches.\<close>

definition after_tranche_1 :: strategy where
  "after_tranche_1 = init\<lparr> position_size := 40, position_avg_price := 100 \<rparr>"

definition after_tranche_2 :: strategy where
  "after_tranche_2 = init\<lparr> position_size := 47, position_avg_price := 105 \<rparr>"

definition empty_store :: database where
  "empty_store = \<lparr> connection = Some [] \<rparr>"

section \<open>Facts about the model's helpers\<close>





lemma py_last_Nil: "py_last xs = Inl e \<longleftrightarrow> xs = [] \<and> e = IndexError"
  by (cases xs) auto




lemma enter_position_cases:
  assumes "enter_position s market trade symbol side entry_size = (s', r)"
  shows "(s' = s \<and> r = None)
       \<or> (\<exists>p order. get_current_price market symbol = Inr p
            \<and> s' = s\<lparr> position_size := position_size s + entry_size, position_avg_price := p \<rparr>
            \<and> r = Some order)"
  using assms by (auto simp add: enter_position_def split: sum.splits)

lemma exit_position_cases:
  assumes "exit_position s trade symbol = (s', r)"
  shows "(s' = s \<and> r = None)
       \<or> (\<exists>order. s' = s\<lparr> position_size := 0, position_avg_price := 0 \<rparr> \<and> r = Some order)"
  using assms by (auto simp add: exit_position_def Let_def split: sum.splits)

lemma reachable_nonnegative:
  assumes "reachable s"
  shows "0 \<le> position_size s \<and> (position_size s = 0 \<longleftrightarrow> position_avg_price s = 0)"
  using assms
proof (induction rule: reachable.induct)
  case reachable_init
  show ?case by (simp add: init_def)
next
  case (reachable_enter s entry_size market symbol trade side s' r)
  from enter_position_cases [OF reachable_enter.hyps(4)] show ?case
  proof (elim disjE conjE exE)
    assume "s' = s"
    with reachable_enter.IH show ?thesis by simp
  next
    fix p order
    assume price: "get_current_price market symbol = Inr p"
      and s': "s' = s\<lparr> position_size := position_size s + entry_size, position_avg_price := p \<rparr>"
    from price have "0 < p" by (rule reachable_enter.hyps(3))
    with s' reachable_enter.IH reachable_enter.hyps(2) show ?thesis by simp
  qed
next
  case (reachable_exit s trade symbol s' r)
  from exit_position_cases [OF reachable_exit.hyps(2)] reachable_exit.IH show ?case
    by auto
qed

lemma get_current_price_propagates:
  "get_ticker market symbol = Inl e \<Longrightarrow> get_current_price market symbol = Inl e"
  by (simp add: get_current_price_def)

lemma get_historical_prices_catches:
  "get_historical_prices_try market symbol limit = Inl e \<Longrightarrow>
   get_historical_prices market symbol limit = []"
  by (simp add: get_historical_prices_def)

section \<open>Exit decision\<close>




text \<open>
  C10. The exit decision never reads the price history: for any two histories the
  same position, parameters and current price give the same exit signal.
\<close>

theorem check_exit_conditions_ignores_prices:
  "check_exit_conditions s p1 current_price = check_exit_conditions s p2 current_price"
  by (simp add: check_exit_conditions_def)

section \<open>Executing an exit\<close>

text \<open>
  C5. Whatever the size of the position (partial or full), an exit that succeeds
  (the order was placed) leaves the position at size 0 and average price 0; nothing
  else of the object changes. An exit is always a close of the whole position.
\<close>

theorem exit_position_resets:
  assumes "exit_position s trade symbol = (s', Some order)"
  shows "s' = s\<lparr> position_size := 0, position_avg_price := 0 \<rparr>
       \<and> position_size s' = 0 \<and> position_avg_price s' = 0"
  using assms by (auto simp add: exit_position_def Let_def split: sum.splits)

theorem exit_position_resets_witness:
  "exit_position after_tranche_1 accepting_trade ''XRP-USDT''
     = (init, Some [(''ordId'', ''1''), (''sz'', ''40'')])
   \<and> exit_position after_tranche_2 accepting_trade ''XRP-USDT''
     = (init, Some [(''ordId'', ''1''), (''sz'', ''47'')])"
proof -
  have partial: "exit_position after_tranche_1 accepting_trade ''XRP-USDT''
      = (fst (exit_position after_tranche_1 accepting_trade ''XRP-USDT''),
         Some [(''ordId'', ''1''), (''sz'', ''40'')])"
    by code_simp
  have full: "exit_position after_tranche_2 accepting_trade ''XRP-USDT''
      = (fst (exit_position after_tranche_2 accepting_trade ''XRP-USDT''),
         Some [(''ordId'', ''1''), (''sz'', ''47'')])"
    by code_simp
  show ?thesis
    using exit_position_resets [OF partial] exit_position_resets [OF full] partial full
    by (simp add: after_tranche_1_def after_tranche_2_def init_def)
qed

section \<open>Entry decision\<close>

text \<open>
  C2. From the flat position, \<open>check_entry_conditions\<close> returns \<open>buy1\<close> exactly when
  the indicator has a latest value and that value is strictly below the oversold
  threshold (so a value that is not below it, NaN included, gives no \<open>buy1\<close>). A
  first entry of size 40 that succeeds, at the price \<open>p\<close> the exchange reports, leaves
  the position at size 40 and average price \<open>p\<close>.
\<close>

theorem flat_entry_buy1:
  assumes "position_size s = 0"
  shows "(check_entry_conditions s prices current_price = Inr (Some ''buy1'')
          \<longleftrightarrow> (\<exists>r. py_last (calculate_rsi s prices) = Inr r \<and> fl_less r (rsi_oversold s)))
       \<and> (buy1_size s = 40
          \<and> get_current_price market symbol = Inr p
          \<and> place_order trade symbol ''cross'' side ''market'' (py_str 40) = Inr order
          \<longrightarrow> enter_position s market trade symbol side (buy1_size s)
              = (s\<lparr> position_size := 40, position_avg_price := p \<rparr>, Some order))"
proof (intro conjI impI)
  show "check_entry_conditions s prices current_price = Inr (Some ''buy1'')
          \<longleftrightarrow> (\<exists>r. py_last (calculate_rsi s prices) = Inr r \<and> fl_less r (rsi_oversold s))"
  proof (cases "py_last (calculate_rsi s prices)")
    case (Inl e)
    then show ?thesis by (simp add: check_entry_conditions_def)
  next
    case (Inr r)
    with assms show ?thesis by (simp add: check_entry_conditions_def)
  qed
next
  assume "buy1_size s = 40
          \<and> get_current_price market symbol = Inr p
          \<and> place_order trade symbol ''cross'' side ''market'' (py_str 40) = Inr order"
  with assms show "enter_position s market trade symbol side (buy1_size s)
              = (s\<lparr> position_size := 40, position_avg_price := p \<rparr>, Some order)"
    by (simp add: enter_position_def)
qed

theorem flat_entry_buy1_witness:
  "position_size init = 0
   \<and> py_last (calculate_rsi init falling_closes) = Inr (Fin 0)
   \<and> fl_less (Fin 0) (rsi_oversold init)
   \<and> check_entry_conditions init falling_closes (1 / 2) = Inr (Some ''buy1'')
   \<and> buy1_size init = 40
   \<and> get_current_price answering_market ''XRP-USDT'' = Inr (1 / 2)
   \<and> enter_position init answering_market accepting_trade ''XRP-USDT'' ''buy'' (buy1_size init)
       = (init\<lparr> position_size := 40, position_avg_price := 1 / 2 \<rparr>,
          Some [(''ordId'', ''1''), (''sz'', ''40'')])"
proof -
  have flat: "position_size init = 0"
    by (simp add: init_def)
  have rsi: "py_last (calculate_rsi init falling_closes) = Inr (Fin 0)"
    by code_simp
  have below: "fl_less (Fin 0) (rsi_oversold init)"
    by (simp add: init_def)
  have first: "buy1_size init = 40"
    by (simp add: init_def)
  have price: "get_current_price answering_market ''XRP-USDT'' = Inr (1 / 2)"
    by code_simp
  have placed: "place_order accepting_trade ''XRP-USDT'' ''cross'' ''buy'' ''market'' (py_str 40)
      = Inr [(''ordId'', ''1''), (''sz'', ''40'')]"
    by code_simp
  show ?thesis
    using flat_entry_buy1 [OF flat, of falling_closes "1 / 2" answering_market "''XRP-USDT''"
        "1 / 2" accepting_trade "''buy''" "[(''ordId'', ''1''), (''sz'', ''40'')]"]
      flat rsi below first price placed
    by auto
qed







section \<open>The position invariant\<close>

text \<open>
  C9. In every state the object can reach from \<open>__init__\<close> by entries of strictly
  positive size at strictly positive reported prices and by exits, successful or
  not, the size is 0 exactly when the average price is 0. (Sizes stay non-negative
  along the way, which is what makes the step for an entry go through.)
\<close>

theorem position_invariant:
  assumes "reachable s"
  shows "position_size s = 0 \<longleftrightarrow> position_avg_price s = 0"
  using reachable_nonnegative [OF assms] by simp

theorem position_invariant_witness:
  "reachable init
   \<and> (position_size init = 0 \<longleftrightarrow> position_avg_price init = 0)
   \<and> reachable (init\<lparr> position_size := 40, position_avg_price := 1 / 2 \<rparr>)
   \<and> (position_size (init\<lparr> position_size := 40, position_avg_price := 1 / 2 \<rparr>) = 0
        \<longleftrightarrow> position_avg_price (init\<lparr> position_size := 40, position_avg_price := 1 / 2 \<rparr>) = 0)"
proof -
  have price: "get_current_price answering_market ''XRP-USDT'' = Inr (1 / 2)"
    by code_simp
  have entered: "enter_position init answering_market accepting_trade ''XRP-USDT'' ''buy'' 40
      = (init\<lparr> position_size := 40, position_avg_price := 1 / 2 \<rparr>,
         Some [(''ordId'', ''1''), (''sz'', ''40'')])"
    by code_simp
  have step: "reachable (init\<lparr> position_size := 40, position_avg_price := 1 / 2 \<rparr>)"
  proof (rule reachable_enter [OF reachable_init _ _ entered])
    show "0 < (40::int)" by simp
    fix p :: real
    assume "get_current_price answering_market ''XRP-USDT'' = Inr p"
    with price show "0 < p" by simp
  qed
  show ?thesis
    using position_invariant [OF reachable_init] position_invariant [OF step] reachable_init step
    by blast
qed

section \<open>Price feed\<close>

text \<open>
  C1, where the code departs from it. The specification: the closes of the most recent
  candles, ascending by time. On a response with two candles, newest first,
  \<open>get_historical_prices\<close> returns field 5 of each candle, the volumes 1200 and 900,
  in the order of the response: neither the closes 0.51 and 0.50 nor ascending by
  time. The store's \<open>bulk_insert_historical_data\<close> reads the same response as the
  specification says: sorted by timestamp, field 4 in the \<open>close\<close> column, field 5 in the
  \<open>volume\<close> column.
\<close>

theorem get_historical_prices_returns_volumes:
  "get_historical_prices answering_market ''XRP-USDT'' 100 = [1200, 900]
   \<and> get_historical_prices answering_market ''XRP-USDT'' 100 \<noteq> [51 / 100, 50 / 100]
   \<and> data_to_insert fmt ''XRP-USDT'' two_candles
       = Inr [(''XRP-USDT'', ''1700000000000'', fmt 1700000000000,
               ''0.50'', ''0.52'', ''0.49'', ''0.51'', ''900''),
              (''XRP-USDT'', ''1700000300000'', fmt 1700000300000,
               ''0.52'', ''0.53'', ''0.49'', ''0.50'', ''1200'')]"
proof -
  have volumes: "get_historical_prices answering_market ''XRP-USDT'' 100 = [1200, 900]"
    by code_simp
  have "get_historical_prices answering_market ''XRP-USDT'' 100 \<noteq> [51 / 100, 50 / 100]"
    by (simp add: volumes)
  moreover have "data_to_insert fmt ''XRP-USDT'' two_candles
       = Inr [(''XRP-USDT'', ''1700000000000'', fmt 1700000000000,
               ''0.50'', ''0.52'', ''0.49'', ''0.51'', ''900''),
              (''XRP-USDT'', ''1700000300000'', fmt 1700000300000,
               ''0.52'', ''0.53'', ''0.49'', ''0.50'', ''1200'')]"
    by (simp add: data_to_insert_def two_candles_def py_getitem_def py_index_def py_int_def
        split_sign_def is_digit_def digits_val_def convert_timestamp_to_datetime_def)
  ultimately show ?thesis
    using volumes by blast
qed

text \<open>
  C7, where the code departs from it. The specification: a remote error in either read is
  caught inside the operation. When every call of the exchange raises,
  \<open>get_historical_prices\<close> returns the empty list, and \<open>get_current_price\<close> raises
  the error to its caller.
\<close>

theorem get_current_price_raises:
  "get_current_price failing_market ''XRP-USDT'' = Inl RemoteError
   \<and> get_historical_prices failing_market ''XRP-USDT'' 100 = []"
  by (simp add: get_current_price_def get_historical_prices_def get_historical_prices_try_def
      failing_market_def)

section \<open>Recording a signal\<close>

text \<open>
  C8, where the code departs from it. The specification: \<open>insert_signal\<close> is an upsert keyed
  by (symbol, timestamp) that succeeds and stores the symbol. The statement gives no
  value for the \<open>symbol\<close> column, so every call raises (IntegrityError on an open
  connection) and stores nothing.
\<close>

theorem insert_signal_fails:
  "insert_signal db timestamp signal
     = Inl (case connection db of None \<Rightarrow> AttributeError | Some rows \<Rightarrow> IntegrityError)
   \<and> insert_signal empty_store 1700000000 ''buy'' = Inl IntegrityError"
  by (simp add: insert_signal_def insert_or_replace_strategy_signals_def empty_store_def
      split: option.splits)

end
